theory Spec2Isabelle
  imports Complex_Main "HOL-Library.Char_ord"
begin

section \<open>Errors as values\<close>

text \<open>
  Every exception the notebook's code can raise is a value: a dictionary lookup that
  misses (\<open>KeyError\<close>), an index outside a tensor or an embedding table
  (\<open>IndexError\<close>), a shape or range fault reported by the tensor library
  (\<open>RuntimeError\<close>), Python's own division by zero (\<open>ZeroDivisionError\<close>), a
  constructor argument out of range (\<open>ValueError\<close>), and a method called on \<open>None\<close>
  (\<open>AttributeError\<close>).
\<close>

datatype error =
  KeyError | IndexError | RuntimeError | ZeroDivisionError | ValueError | AttributeError

type_synonym 'a result = "error + 'a"

definition rbind :: "'a result \<Rightarrow> ('a \<Rightarrow> 'b result) \<Rightarrow> 'b result" where
  "rbind r f = (case r of Inl e \<Rightarrow> Inl e | Inr v \<Rightarrow> f v)"

text \<open>A list comprehension whose body may raise: left to right, stopping at the first fault.\<close>

fun rmapM :: "('a \<Rightarrow> 'b result) \<Rightarrow> 'a list \<Rightarrow> 'b list result" where
  "rmapM f [] = Inr []"
| "rmapM f (x # xs) =
     (case f x of Inl e \<Rightarrow> Inl e
      | Inr y \<Rightarrow> (case rmapM f xs of Inl e \<Rightarrow> Inl e | Inr ys \<Rightarrow> Inr (y # ys)))"

text \<open>\<open>returns P r\<close>: the call returned (it did not raise) and its value satisfies \<open>P\<close>.\<close>

definition returns :: "('a \<Rightarrow> bool) \<Rightarrow> 'a result \<Rightarrow> bool" where
  "returns P r = (case r of Inl e \<Rightarrow> False | Inr y \<Rightarrow> P y)"

section \<open>Tokenizer\<close>

text \<open>
  \<^verbatim>\<open>chars = sorted(list(set(text)))\<close>,
  \<^verbatim>\<open>stoi = { ch:i for i,ch in enumerate(chars) }\<close>,
  \<^verbatim>\<open>itos = { i:ch for i,ch in enumerate(chars) }\<close>,
  \<^verbatim>\<open>encode = lambda s: [stoi[c] for c in s]\<close>,
  \<^verbatim>\<open>decode = lambda l: ''.join([itos[i] for i in l])\<close>.
  A symbol is any linearly ordered type (Python orders characters by code point); a text
  is a list of symbols. The dictionaries are built as the comprehensions build them, by
  storing the pairs of \<open>enumerate\<close> one after the other.
\<close>

definition chars :: "'a::linorder list \<Rightarrow> 'a list" where
  "chars text = sorted_list_of_set (set text)"

definition vocab_size_of :: "'a::linorder list \<Rightarrow> nat" where
  "vocab_size_of text = length (chars text)"

definition stoi :: "'a::linorder list \<Rightarrow> ('a \<rightharpoonup> int)" where
  "stoi text = fold (\<lambda>(i, ch) m. m(ch \<mapsto> int i)) (enumerate 0 (chars text)) Map.empty"

definition itos :: "'a::linorder list \<Rightarrow> (int \<rightharpoonup> 'a)" where
  "itos text = fold (\<lambda>(i, ch) m. m(int i \<mapsto> ch)) (enumerate 0 (chars text)) Map.empty"

definition encode :: "'a::linorder list \<Rightarrow> 'a list \<Rightarrow> int list result" where
  "encode text s =
     rmapM (\<lambda>c. case stoi text c of None \<Rightarrow> Inl KeyError | Some i \<Rightarrow> Inr i) s"

definition decode :: "'a::linorder list \<Rightarrow> int list \<Rightarrow> 'a list result" where
  "decode text l =
     map_sum id concat
       (rmapM (\<lambda>i. case itos text i of None \<Rightarrow> Inl KeyError | Some c \<Rightarrow> Inr [c]) l)"

section \<open>Train and validation split\<close>

text \<open>
  \<^verbatim>\<open>n = int(0.9*len(data))\<close>, \<^verbatim>\<open>train_data = data[:n]\<close>,
  \<^verbatim>\<open>val_data = data[n:]\<close>. The product is taken in the reals and truncated;
  the double-precision product of the source truncates to the same integer for every
  length a tensor can have in memory.
\<close>

definition split_point :: "nat \<Rightarrow> nat" where
  "split_point len = nat \<lfloor>0.9 * real len\<rfloor>"

definition train_data :: "'a list \<Rightarrow> 'a list" where
  "train_data data = take (split_point (length data)) data"

definition val_data :: "'a list \<Rightarrow> 'a list" where
  "val_data data = drop (split_point (length data)) data"

section \<open>Hyperparameters\<close>

text \<open>
  The notebook's module-level hyperparameters, gathered in one record;
  \<open>vocab_size\<close> is \<^verbatim>\<open>len(chars)\<close>. \<open>source_config\<close> holds the values the
  notebook assigns.
\<close>

record config =
  batch_size :: nat
  block_size :: nat
  eval_iters :: nat
  n_embd :: nat
  n_head :: nat
  n_layer :: nat
  dropout :: real
  vocab_size :: nat

definition source_config :: config where
  "source_config = \<lparr> batch_size = 64, block_size = 256, eval_iters = 200, n_embd = 384,
     n_head = 6, n_layer = 6, dropout = 0.2, vocab_size = 65 \<rparr>"

section \<open>Batch sampler\<close>

text \<open>
  \<^verbatim>\<open>torch.randint(high, (size,))\<close> raises when \<open>high \<le> 0\<close> and otherwise
  returns \<open>size\<close> integers of \<open>[0, high)\<close>: the raw numbers of the random source,
  reduced into the range. \<^verbatim>\<open>torch.stack\<close> raises on an empty list and on rows of
  different lengths.
\<close>

definition randint :: "(nat \<Rightarrow> nat) \<Rightarrow> int \<Rightarrow> nat \<Rightarrow> nat list result" where
  "randint rnd high n =
     (if high \<le> 0 then Inl RuntimeError else Inr (map (\<lambda>k. rnd k mod nat high) [0..<n]))"

definition stack :: "'a list list \<Rightarrow> 'a list list result" where
  "stack rows =
     (case rows of [] \<Rightarrow> Inl RuntimeError
      | r # rs \<Rightarrow> if list_all (\<lambda>s. length s = length r) rs then Inr rows
                  else Inl RuntimeError)"

text \<open>
  \<^verbatim>\<open>
  def get_batch(split):
      data = train_data if split == 'train' else val_data
      ix = torch.randint(len(data) - block_size, (batch_size,))
      x = torch.stack([data[i:i+block_size] for i in ix])
      y = torch.stack([data[i+1:i+block_size+1] for i in ix])
      x, y = x.to(device), y.to(device)
      return x, y
  \<close>
  \<open>corpus\<close> is the encoded corpus the two splits are cut from; moving a tensor to the
  device does not change its values.
\<close>

definition split_of :: "int list \<Rightarrow> string \<Rightarrow> int list" where
  "split_of corpus split = (if split = ''train'' then train_data corpus else val_data corpus)"

definition get_batch ::
  "config \<Rightarrow> (nat \<Rightarrow> nat) \<Rightarrow> int list \<Rightarrow> string \<Rightarrow> (int list list \<times> int list list) result" where
  "get_batch cfg rnd corpus split =
     (let data = split_of corpus split in
      case randint rnd (int (length data) - int (block_size cfg)) (batch_size cfg) of
        Inl e \<Rightarrow> Inl e
      | Inr ix \<Rightarrow>
          (case stack (map (\<lambda>i. take (block_size cfg) (drop i data)) ix) of
             Inl e \<Rightarrow> Inl e
           | Inr x \<Rightarrow>
               (case stack (map (\<lambda>i. take (block_size cfg) (drop (i + 1) data)) ix) of
                  Inl e \<Rightarrow> Inl e
                | Inr y \<Rightarrow> Inr (x, y))))"

section \<open>Tensors\<close>

text \<open>
  A tensor is a nested list of reals: a vector, a \<open>(T, C)\<close> matrix as a list of rows, a
  \<open>(B, T, C)\<close> batch as a list of matrices. The arithmetic is that of the reals; a
  masked score is \<open>NegInf\<close>, the \<^verbatim>\<open>float('-inf')\<close> of the source, whose exponential
  is zero. An empty batch does not carry its other dimensions.
\<close>

type_synonym vec = "real list"
type_synonym mat = "real list list"
type_synonym tensor3 = "real list list list"

datatype ext = NegInf | Fin real

definition has_shape2 :: "nat \<Rightarrow> nat \<Rightarrow> 'a list list \<Rightarrow> bool" where
  "has_shape2 T C x = (length x = T \<and> list_all (\<lambda>r. length r = C) x)"


definition dot :: "vec \<Rightarrow> vec \<Rightarrow> real" where
  "dot u v = sum_list (map2 (*) u v)"

definition vadd :: "vec \<Rightarrow> vec \<Rightarrow> vec" where
  "vadd u v = map2 (+) u v"

text \<open>\<^verbatim>\<open>a @ b\<close> for a \<open>(T, T')\<close> matrix and a \<open>(T', C)\<close> matrix.\<close>

definition matmul :: "mat \<Rightarrow> mat \<Rightarrow> mat" where
  "matmul a b =
     (case b of [] \<Rightarrow> map (\<lambda>row. []) a
      | r # rs \<Rightarrow> map (\<lambda>row. map (\<lambda>c. dot row (map (\<lambda>v. v ! c) b)) [0..<length r]) a)"

text \<open>\<^verbatim>\<open>x + y\<close> for two batches of one shape.\<close>

definition tensor_add :: "tensor3 \<Rightarrow> tensor3 \<Rightarrow> tensor3 result" where
  "tensor_add x y =
     (if map (map length) x = map (map length) y then Inr (map2 (map2 vadd) x y)
      else Inl RuntimeError)"

text \<open>
  \<^verbatim>\<open>F.softmax(row, dim=-1)\<close>. (A row of \<open>NegInf\<close> only is not-a-number in the
  source and zero here; the causal mask keeps the diagonal, so no such row arises.)
\<close>

definition ext_exp :: "ext \<Rightarrow> real" where
  "ext_exp e = (case e of NegInf \<Rightarrow> 0 | Fin r \<Rightarrow> exp r)"

definition softmax :: "ext list \<Rightarrow> vec" where
  "softmax row = (let es = map ext_exp row in map (\<lambda>e. e / sum_list es) es)"

section \<open>Layers\<close>

subsection \<open>Dropout\<close>

text \<open>
  \<^verbatim>\<open>nn.Dropout(p)\<close> raises for \<open>p\<close> outside \<open>[0, 1]\<close>. In evaluation mode it is
  the identity; in training mode it zeroes the elements the random source does not keep
  and scales the others by \<open>1 / (1 - p)\<close>. The random source of a forward pass is a
  function from the path of an element (the dropout site, then the indices) to the
  decision to keep it; \<open>sub\<close> selects the part of the source below one index.
\<close>

datatype mode = Eval | Train "nat list \<Rightarrow> bool"

fun sub :: "nat \<Rightarrow> mode \<Rightarrow> mode" where
  "sub k Eval = Eval"
| "sub k (Train keep) = Train (\<lambda>p. keep (k # p))"

definition Dropout_init :: "real \<Rightarrow> real result" where
  "Dropout_init p = (if 0 \<le> p \<and> p \<le> 1 then Inr p else Inl ValueError)"

fun Dropout_forward :: "real \<Rightarrow> mode \<Rightarrow> vec \<Rightarrow> vec" where
  "Dropout_forward p Eval xs = xs"
| "Dropout_forward p (Train keep) xs =
     map (\<lambda>(i, x). if keep [i] then x / (1 - p) else 0) (enumerate 0 xs)"

definition Dropout2 :: "real \<Rightarrow> mode \<Rightarrow> mat \<Rightarrow> mat" where
  "Dropout2 p m x = map (\<lambda>(t, r). Dropout_forward p (sub t m) r) (enumerate 0 x)"

definition Dropout3 :: "real \<Rightarrow> mode \<Rightarrow> tensor3 \<Rightarrow> tensor3" where
  "Dropout3 p m x = map (\<lambda>(b, s). Dropout2 p (sub b m) s) (enumerate 0 x)"

subsection \<open>Linear and LayerNorm\<close>

text \<open>
  \<^verbatim>\<open>nn.Linear(in_features, out_features, bias)\<close>: the weight is an
  \<open>(out_features, in_features)\<close> matrix, applied to the last dimension; an input of
  another width raises. \<^verbatim>\<open>nn.LayerNorm(n)\<close> normalises the last dimension with
  the biased variance and \<open>eps = 1e-5\<close>. The initial values are those of
  \<^verbatim>\<open>_init_weights\<close> and of the library: weights from the random source \<open>init\<close>,
  biases zero, LayerNorm scale one and shift zero.
\<close>

record Linear =
  in_features :: nat
  out_features :: nat
  weight :: mat
  bias :: "vec option"

definition isub :: "nat \<Rightarrow> (nat list \<Rightarrow> real) \<Rightarrow> (nat list \<Rightarrow> real)" where
  "isub k init = (\<lambda>p. init (k # p))"

definition Linear_init :: "(nat list \<Rightarrow> real) \<Rightarrow> nat \<Rightarrow> nat \<Rightarrow> bool \<Rightarrow> Linear" where
  "Linear_init init n_in n_out with_bias =
     \<lparr> in_features = n_in, out_features = n_out,
       weight = map (\<lambda>r. map (\<lambda>c. init [r, c]) [0..<n_in]) [0..<n_out],
       bias = (if with_bias then Some (replicate n_out 0) else None) \<rparr>"

definition Linear_forward :: "Linear \<Rightarrow> vec \<Rightarrow> vec result" where
  "Linear_forward l x =
     (if length x \<noteq> in_features l then Inl RuntimeError
      else Inr (case bias l of
                  None \<Rightarrow> map (\<lambda>w. dot w x) (weight l)
                | Some b \<Rightarrow> map2 (\<lambda>w c. dot w x + c) (weight l) b))"

definition Linear3 :: "Linear \<Rightarrow> tensor3 \<Rightarrow> tensor3 result" where
  "Linear3 l x = rmapM (rmapM (Linear_forward l)) x"

record LayerNorm =
  normalized_shape :: nat
  ln_weight :: vec
  ln_bias :: vec

definition LayerNorm_init :: "nat \<Rightarrow> LayerNorm" where
  "LayerNorm_init n = \<lparr> normalized_shape = n, ln_weight = replicate n 1, ln_bias = replicate n 0 \<rparr>"

definition mean :: "vec \<Rightarrow> real" where
  "mean xs = sum_list xs / real (length xs)"

definition LayerNorm_forward :: "LayerNorm \<Rightarrow> vec \<Rightarrow> vec result" where
  "LayerNorm_forward nrm x =
     (if length x \<noteq> normalized_shape nrm then Inl RuntimeError
      else let mu = mean x; var = mean (map (\<lambda>v. (v - mu)\<^sup>2) x)
           in Inr (map (\<lambda>(v, g, b). (v - mu) / sqrt (var + 1 / 100000) * g + b)
                     (zip x (zip (ln_weight nrm) (ln_bias nrm)))))"

definition LayerNorm3 :: "LayerNorm \<Rightarrow> tensor3 \<Rightarrow> tensor3 result" where
  "LayerNorm3 nrm x = rmapM (rmapM (LayerNorm_forward nrm)) x"

subsection \<open>One head of causal self-attention\<close>

text \<open>
  \<^verbatim>\<open>
  class Head(nn.Module):
      def __init__(self, head_size):
          self.key = nn.Linear(n_embd, head_size, bias=False)
          self.query = nn.Linear(n_embd, head_size, bias=False)
          self.value = nn.Linear(n_embd, head_size, bias=False)
          self.register_buffer('tril', torch.tril(torch.ones(block_size, block_size)))
          self.dropout = nn.Dropout(dropout)
      def forward(self, x):
          B,T,C = x.shape
          k = self.key(x)
          q = self.query(x)
          wei = q @ k.transpose(-2,-1) * k.shape[-1]**-0.5
          wei = wei.masked_fill(self.tril[:T, :T] == 0, float('-inf'))
          wei = F.softmax(wei, dim=-1)
          wei = self.dropout(wei)
          v = self.value(x)
          out = wei @ v
          return out
  \<close>
  \<open>Head_wei\<close> is \<open>wei\<close> after the softmax. Python raises on \<open>0 ** -0.5\<close>.
  \<^verbatim>\<open>masked_fill\<close> needs a mask that broadcasts to the scores: the slice of the
  buffer has \<open>min T block_size\<close> rows and columns, which fits when that is \<open>T\<close> or one.
\<close>

record Head =
  key :: Linear
  query :: Linear
  "value" :: Linear
  tril :: mat
  head_dropout :: real

definition tril_ones :: "nat \<Rightarrow> mat" where
  "tril_ones n = map (\<lambda>i. map (\<lambda>j. if j \<le> i then 1 else 0) [0..<n]) [0..<n]"

definition Head_init :: "config \<Rightarrow> (nat list \<Rightarrow> real) \<Rightarrow> nat \<Rightarrow> Head result" where
  "Head_init cfg init head_size =
     rbind (Dropout_init (dropout cfg)) (\<lambda>p.
       Inr \<lparr> key = Linear_init (isub 0 init) (n_embd cfg) head_size False,
             query = Linear_init (isub 1 init) (n_embd cfg) head_size False,
             value = Linear_init (isub 2 init) (n_embd cfg) head_size False,
             tril = tril_ones (block_size cfg),
             head_dropout = p \<rparr>)"

definition pow_neg_half :: "nat \<Rightarrow> real result" where
  "pow_neg_half n = (if n = 0 then Inl ZeroDivisionError else Inr (real n powr (- 1 / 2)))"

definition tril_mask :: "Head \<Rightarrow> nat \<Rightarrow> bool list list" where
  "tril_mask h T = map (\<lambda>row. map (\<lambda>v. v = 0) (take T row)) (take T (tril h))"

definition masked_fill :: "mat \<Rightarrow> bool list list \<Rightarrow> ext list list result" where
  "masked_fill wei msk =
     (if length msk = length wei
        then Inr (map2 (map2 (\<lambda>w m. if m then NegInf else Fin w)) wei msk)
      else if length msk = 1
        then Inr (map (map (\<lambda>w. if hd (hd msk) then NegInf else Fin w)) wei)
      else Inl RuntimeError)"

definition Head_wei :: "Head \<Rightarrow> tensor3 \<Rightarrow> tensor3 result" where
  "Head_wei h x =
     rbind (Linear3 (key h) x) (\<lambda>k.
     rbind (Linear3 (query h) x) (\<lambda>q.
     rbind (pow_neg_half (out_features (key h))) (\<lambda>sc.
     rbind (rmapM (\<lambda>(qb, kb).
              masked_fill (map (\<lambda>qi. map (\<lambda>kj. dot qi kj * sc) kb) qb)
                (tril_mask h (length qb))) (zip q k)) (\<lambda>wei.
     Inr (map (map softmax) wei)))))"

definition Head_forward :: "Head \<Rightarrow> mode \<Rightarrow> tensor3 \<Rightarrow> tensor3 result" where
  "Head_forward h m x =
     rbind (Head_wei h x) (\<lambda>wei.
     rbind (Linear3 (value h) x) (\<lambda>v.
     Inr (map2 matmul (Dropout3 (head_dropout h) m wei) v)))"

subsection \<open>Multi-head attention\<close>

text \<open>
  \<^verbatim>\<open>
  class MultiHeadAttention(nn.Module):
      def __init__(self, num_heads, head_size):
          self.heads = nn.ModuleList([Head(head_size) for _ in range(num_heads)])
          self.proj = nn.Linear(head_size * num_heads, n_embd)
          self.dropout = nn.Dropout(dropout)
      def forward(self, x):
          out = torch.cat([h(x) for h in self.heads], dim=-1)
          out = self.dropout(self.proj(out))
          return out
  \<close>
  \<^verbatim>\<open>torch.cat\<close> raises on an empty list and on tensors that differ in another
  dimension than the one concatenated.
\<close>

record MultiHeadAttention =
  heads :: "Head list"
  proj_lin :: Linear
  mha_dropout :: real

definition MultiHeadAttention_init ::
  "config \<Rightarrow> (nat list \<Rightarrow> real) \<Rightarrow> nat \<Rightarrow> nat \<Rightarrow> MultiHeadAttention result" where
  "MultiHeadAttention_init cfg init num_heads head_size =
     rbind (rmapM (\<lambda>k. Head_init cfg (isub (Suc k) init) head_size) [0..<num_heads]) (\<lambda>hs.
     rbind (Dropout_init (dropout cfg)) (\<lambda>p.
       Inr \<lparr> heads = hs,
             proj_lin = Linear_init (isub 0 init) (head_size * num_heads) (n_embd cfg) True,
             mha_dropout = p \<rparr>))"

definition cat_last :: "tensor3 list \<Rightarrow> tensor3 result" where
  "cat_last outs =
     (case outs of [] \<Rightarrow> Inl RuntimeError
      | o1 # os \<Rightarrow>
          if list_all (\<lambda>o2. map length o2 = map length o1) os
          then Inr (map (\<lambda>b. map (\<lambda>t. concat (map (\<lambda>o2. o2 ! b ! t) outs)) [0..<length (o1 ! b)])
                      [0..<length o1])
          else Inl RuntimeError)"

definition MultiHeadAttention_forward :: "MultiHeadAttention \<Rightarrow> mode \<Rightarrow> tensor3 \<Rightarrow> tensor3 result" where
  "MultiHeadAttention_forward a m x =
     rbind (rmapM (\<lambda>(k, h). Head_forward h (sub (Suc k) m) x) (enumerate 0 (heads a))) (\<lambda>outs.
     rbind (cat_last outs) (\<lambda>out.
     rbind (Linear3 (proj_lin a) out) (\<lambda>out.
     Inr (Dropout3 (mha_dropout a) (sub 0 m) out))))"

subsection \<open>Feed-forward\<close>

text \<open>
  \<^verbatim>\<open>
  class FeedFoward(nn.Module):
      def __init__(self, n_embd):
          self.net = nn.Sequential(
              nn.Linear(n_embd, 4 * n_embd), nn.ReLU(),
              nn.Linear(4 * n_embd, n_embd), nn.Dropout(dropout))
      def forward(self, x):
          return self.net(x)
  \<close>
  The fields are the elements of \<open>net\<close> that carry parameters or a rate, by position.
\<close>

record FeedFoward =
  net_0 :: Linear
  net_2 :: Linear
  net_3 :: real

definition FeedFoward_init :: "config \<Rightarrow> (nat list \<Rightarrow> real) \<Rightarrow> nat \<Rightarrow> FeedFoward result" where
  "FeedFoward_init cfg init n =
     rbind (Dropout_init (dropout cfg)) (\<lambda>p.
       Inr \<lparr> net_0 = Linear_init (isub 0 init) n (4 * n) True,
             net_2 = Linear_init (isub 1 init) (4 * n) n True,
             net_3 = p \<rparr>)"

definition ReLU :: "tensor3 \<Rightarrow> tensor3" where
  "ReLU x = map (map (map (max 0))) x"

definition FeedFoward_forward :: "FeedFoward \<Rightarrow> mode \<Rightarrow> tensor3 \<Rightarrow> tensor3 result" where
  "FeedFoward_forward f m x =
     rbind (Linear3 (net_0 f) x) (\<lambda>y.
     rbind (Linear3 (net_2 f) (ReLU y)) (\<lambda>z.
     Inr (Dropout3 (net_3 f) m z)))"

subsection \<open>Transformer block\<close>

text \<open>
  \<^verbatim>\<open>
  class Block(nn.Module):
      def __init__(self, n_embd, n_head):
          head_size = n_embd // n_head
          self.sa = MultiHeadAttention(n_head, head_size)
          self.ffwd = FeedFoward(n_embd)
          self.ln1 = nn.LayerNorm(n_embd)
          self.ln2 = nn.LayerNorm(n_embd)
      def forward(self, x):
          x = x + self.sa(self.ln1(x))
          x = x + self.ffwd(self.ln2(x))
          return x
  \<close>
  Python's \<^verbatim>\<open>//\<close> raises on a zero divisor. The constructor has no other check of
  its two arguments. They size the heads, the feed-forward net and the normalisations;
  \<open>MultiHeadAttention\<close> and \<open>Head\<close> read the module-level \<open>n_embd\<close>.
\<close>

record Block =
  sa :: MultiHeadAttention
  ffwd :: FeedFoward
  ln1 :: LayerNorm
  ln2 :: LayerNorm

definition Block_init :: "config \<Rightarrow> (nat list \<Rightarrow> real) \<Rightarrow> nat \<Rightarrow> nat \<Rightarrow> Block result" where
  "Block_init cfg init n_embd1 n_head1 =
     (if n_head1 = 0 then Inl ZeroDivisionError
      else let head_size = n_embd1 div n_head1 in
        rbind (MultiHeadAttention_init cfg (isub 0 init) n_head1 head_size) (\<lambda>a.
        rbind (FeedFoward_init cfg (isub 1 init) n_embd1) (\<lambda>f.
          Inr \<lparr> sa = a, ffwd = f, ln1 = LayerNorm_init n_embd1, ln2 = LayerNorm_init n_embd1 \<rparr>)))"

definition Block_forward :: "Block \<Rightarrow> mode \<Rightarrow> tensor3 \<Rightarrow> tensor3 result" where
  "Block_forward b m x =
     rbind (LayerNorm3 (ln1 b) x) (\<lambda>y1.
     rbind (MultiHeadAttention_forward (sa b) (sub 0 m) y1) (\<lambda>a.
     rbind (tensor_add x a) (\<lambda>x1.
     rbind (LayerNorm3 (ln2 b) x1) (\<lambda>y2.
     rbind (FeedFoward_forward (ffwd b) (sub 1 m) y2) (\<lambda>f.
     tensor_add x1 f)))))"

subsection \<open>Language model\<close>

text \<open>
  \<^verbatim>\<open>
  class GPTLanguageModel(nn.Module):
      def __init__(self):
          self.token_embedding_table = nn.Embedding(vocab_size, n_embd)
          self.position_embedding_table = nn.Embedding(block_size, n_embd)
          self.blocks = nn.Sequential(*[Block(n_embd, n_head=n_head) for _ in range(n_layer)])
          self.ln_f = nn.LayerNorm(n_embd)
          self.lm_head = nn.Linear(n_embd, vocab_size)
          self.apply(self._init_weights)
      def forward(self, idx, targets=None):
          B, T = idx.shape
          tok_emb = self.token_embedding_table(idx)
          pos_emb = self.position_embedding_table(torch.arange(T, device=device))
          x = tok_emb + pos_emb
          x = self.blocks(x)
          x = self.ln_f(x)
          logits = self.lm_head(x)
          if targets is None:
              loss = None
          else:
              B, T, C = logits.shape
              logits = logits.view(B*T, C)
              targets = targets.view(B*T)
              loss = F.cross_entropy(logits, targets)
          return logits, loss
  \<close>
  An embedding lookup raises on an index outside the table. \<^verbatim>\<open>F.cross_entropy\<close>
  is the mean, over the targets other than the ignored index \<open>-100\<close>, of the negative
  log-probability of the target; it raises on another target outside the classes, and
  the mean of no element is not-a-number. The returned logits are a \<open>(B, T, C)\<close> tensor
  without targets and the reshaped \<open>(B*T, C)\<close> tensor with targets. \<open>T\<close> is the length
  of the first row of \<open>idx\<close>, and zero for an empty batch.
\<close>

record GPTLanguageModel =
  token_embedding_table :: mat
  position_embedding_table :: mat
  blocks :: "Block list"
  ln_f :: LayerNorm
  lm_head :: Linear

definition Embedding_init :: "(nat list \<Rightarrow> real) \<Rightarrow> nat \<Rightarrow> nat \<Rightarrow> mat" where
  "Embedding_init init num width = map (\<lambda>r. map (\<lambda>c. init [r, c]) [0..<width]) [0..<num]"

definition Embedding_forward :: "mat \<Rightarrow> int \<Rightarrow> vec result" where
  "Embedding_forward tab i =
     (if 0 \<le> i \<and> nat i < length tab then Inr (tab ! nat i) else Inl IndexError)"

definition GPTLanguageModel_init :: "config \<Rightarrow> (nat list \<Rightarrow> real) \<Rightarrow> GPTLanguageModel result" where
  "GPTLanguageModel_init cfg init =
     rbind (rmapM (\<lambda>l. Block_init cfg (isub (l + 3) init) (n_embd cfg) (n_head cfg))
              [0..<n_layer cfg]) (\<lambda>bs.
       Inr \<lparr> token_embedding_table = Embedding_init (isub 0 init) (vocab_size cfg) (n_embd cfg),
             position_embedding_table = Embedding_init (isub 1 init) (block_size cfg) (n_embd cfg),
             blocks = bs,
             ln_f = LayerNorm_init (n_embd cfg),
             lm_head = Linear_init (isub 2 init) (n_embd cfg) (vocab_size cfg) True \<rparr>)"

fun Sequential :: "Block list \<Rightarrow> nat \<Rightarrow> mode \<Rightarrow> tensor3 \<Rightarrow> tensor3 result" where
  "Sequential [] l m x = Inr x"
| "Sequential (b # bs) l m x = rbind (Block_forward b (sub l m) x) (Sequential bs (Suc l) m)"

datatype scalar = NaN | Val real

datatype logits = Logits3 tensor3 | Logits2 mat


definition nll :: "vec \<Rightarrow> int \<Rightarrow> real option result" where
  "nll row t =
     (if t = - 100 then Inr None
      else if 0 \<le> t \<and> nat t < length row
        then Inr (Some (ln (sum_list (map exp row)) - row ! nat t))
      else Inl IndexError)"

definition cross_entropy :: "mat \<Rightarrow> int list \<Rightarrow> scalar result" where
  "cross_entropy lg tg =
     (if length lg \<noteq> length tg then Inl ValueError
      else rbind (rmapM (\<lambda>(row, t). nll row t) (zip lg tg)) (\<lambda>ls.
        let vs = List.map_filter id ls
        in Inr (if vs = [] then NaN else Val (sum_list vs / real (length vs)))))"

definition GPTLanguageModel_forward ::
  "GPTLanguageModel \<Rightarrow> mode \<Rightarrow> int list list \<Rightarrow> int list list option
     \<Rightarrow> (logits \<times> scalar option) result" where
  "GPTLanguageModel_forward g m idx targets =
     (let T = (case idx of [] \<Rightarrow> 0 | r # rs \<Rightarrow> length r) in
      rbind (rmapM (rmapM (Embedding_forward (token_embedding_table g))) idx) (\<lambda>tok_emb.
      rbind (rmapM (Embedding_forward (position_embedding_table g)) (map int [0..<T])) (\<lambda>pos_emb.
      rbind (Sequential (blocks g) 0 m (map (\<lambda>s. map2 vadd s pos_emb) tok_emb)) (\<lambda>x.
      rbind (LayerNorm3 (ln_f g) x) (\<lambda>x1.
      rbind (Linear3 (lm_head g) x1) (\<lambda>lg.
        case targets of
          None \<Rightarrow> Inr (Logits3 lg, None)
        | Some tg \<Rightarrow>
            if length (concat tg) \<noteq> length (concat lg) then Inl RuntimeError
            else rbind (cross_entropy (concat lg) (concat tg)) (\<lambda>loss.
                   Inr (Logits2 (concat lg), Some loss))))))))"

section \<open>The random source and the state of the program\<close>

text \<open>
  The state the notebook's procedures share: the model's parameters, its mode flag
  (\<^verbatim>\<open>model.train()\<close>, \<^verbatim>\<open>model.eval()\<close>), the position of the random number
  generator, and the log of the inputs the forward pass was called with. The random
  numbers themselves are a parameter, read at the generator's position; a forward pass
  draws from the generator in training mode only.
\<close>

record randomness =
  randint_src :: "nat \<Rightarrow> nat \<Rightarrow> nat"
  multinomial_src :: "nat \<Rightarrow> nat \<Rightarrow> nat"
  dropout_src :: "nat \<Rightarrow> nat list \<Rightarrow> bool"

record world =
  wmodel :: GPTLanguageModel
  training :: bool
  rng :: nat
  calls :: "int list list list"

definition call_model ::
  "randomness \<Rightarrow> world \<Rightarrow> int list list \<Rightarrow> int list list option
     \<Rightarrow> world \<times> (logits \<times> scalar option) result" where
  "call_model orc w idx targets =
     (w\<lparr> rng := (if training w then rng w + 1 else rng w), calls := calls w @ [idx] \<rparr>,
      GPTLanguageModel_forward (wmodel w)
        (if training w then Train (dropout_src orc (rng w)) else Eval) idx targets)"

section \<open>Generation\<close>


definition crop :: "nat \<Rightarrow> 'a list \<Rightarrow> 'a list" where
  "crop n row = (if n = 0 then row else drop (length row - n) row)"

definition last_step :: "logits \<Rightarrow> mat result" where
  "last_step lg =
     (case lg of
        Logits2 x \<Rightarrow> Inl IndexError
      | Logits3 x \<Rightarrow> rmapM (\<lambda>s. if s = [] then Inl IndexError else Inr (last s)) x)"

definition multinomial :: "(nat \<Rightarrow> nat) \<Rightarrow> mat \<Rightarrow> int list list result" where
  "multinomial src probs =
     rmapM (\<lambda>(b, p). if p \<noteq> [] \<and> list_all (\<lambda>q. 0 \<le> q) p \<and> 0 < sum_list p
                     then Inr [int (src b mod length p)]
                     else Inl RuntimeError)
       (enumerate 0 probs)"

definition cat1 :: "int list list \<Rightarrow> int list list \<Rightarrow> int list list result" where
  "cat1 idx idx_next =
     (if length idx = length idx_next then Inr (map2 (@) idx idx_next) else Inl RuntimeError)"

definition generate_step :: "config \<Rightarrow> randomness \<Rightarrow> world \<Rightarrow> int list list \<Rightarrow> world \<times> int list list result" where
  "generate_step cfg orc w idx =
     (let idx_cond = map (crop (block_size cfg)) idx;
          (w1, r) = call_model orc w idx_cond None
      in case rbind r (\<lambda>(lg, loss). last_step lg) of
           Inl e \<Rightarrow> (w1, Inl e)
         | Inr lg \<Rightarrow>
             (w1\<lparr> rng := rng w1 + 1 \<rparr>,
              rbind (multinomial (multinomial_src orc (rng w1)) (map (\<lambda>row. softmax (map Fin row)) lg))
                (cat1 idx)))"

fun generate :: "config \<Rightarrow> randomness \<Rightarrow> world \<Rightarrow> int list list \<Rightarrow> nat \<Rightarrow> world \<times> int list list result" where
  "generate cfg orc w idx 0 = (w, Inr idx)"
| "generate cfg orc w idx (Suc n) =
     (case generate_step cfg orc w idx of
        (w1, Inl e) \<Rightarrow> (w1, Inl e)
      | (w1, Inr idx1) \<Rightarrow> generate cfg orc w1 idx1 n)"

section \<open>Loss estimation\<close>

text \<open>
  \<^verbatim>\<open>
  @torch.no_grad()
  def estimate_loss():
      out = {}
      model.eval()
      for split in ['train', 'val']:
          losses = torch.zeros(eval_iters)
          for k in range(eval_iters):
              X, Y = get_batch(split)
              logits, loss = model(X, Y)
              losses[k] = loss.item()
          out[split] = losses.mean()
      model.train()
      return out
  \<close>
  The dictionary \<open>out\<close> is the pair of its two entries.
\<close>

definition mean_scalar :: "scalar list \<Rightarrow> scalar" where
  "mean_scalar ls =
     (if ls = [] \<or> NaN \<in> set ls then NaN
      else Val (sum_list (map (\<lambda>l. case l of NaN \<Rightarrow> 0 | Val v \<Rightarrow> v) ls) / real (length ls)))"

fun eval_loop ::
  "config \<Rightarrow> randomness \<Rightarrow> int list \<Rightarrow> string \<Rightarrow> nat list \<Rightarrow> world \<Rightarrow> scalar list
     \<Rightarrow> world \<times> scalar list result" where
  "eval_loop cfg orc corpus split [] w losses = (w, Inr losses)"
| "eval_loop cfg orc corpus split (k # ks) w losses =
     (case get_batch cfg (randint_src orc (rng w)) corpus split of
        Inl e \<Rightarrow> (w, Inl e)
      | Inr (X, Y) \<Rightarrow>
          (case call_model orc (w\<lparr> rng := rng w + 1 \<rparr>) X (Some Y) of
             (w1, Inl e) \<Rightarrow> (w1, Inl e)
           | (w1, Inr (lg, None)) \<Rightarrow> (w1, Inl AttributeError)
           | (w1, Inr (lg, Some loss)) \<Rightarrow>
               eval_loop cfg orc corpus split ks w1 (losses[k := loss])))"

definition estimate_loss ::
  "config \<Rightarrow> randomness \<Rightarrow> int list \<Rightarrow> world \<Rightarrow> world \<times> (scalar \<times> scalar) result" where
  "estimate_loss cfg orc corpus w =
     (case eval_loop cfg orc corpus ''train'' [0..<eval_iters cfg] (w\<lparr> training := False \<rparr>)
             (replicate (eval_iters cfg) (Val 0)) of
        (w1, Inl e) \<Rightarrow> (w1, Inl e)
      | (w1, Inr ltrain) \<Rightarrow>
          (case eval_loop cfg orc corpus ''val'' [0..<eval_iters cfg] w1
                  (replicate (eval_iters cfg) (Val 0)) of
             (w2, Inl e) \<Rightarrow> (w2, Inl e)
           | (w2, Inr lval) \<Rightarrow>
               (w2\<lparr> training := True \<rparr>, Inr (mean_scalar ltrain, mean_scalar lval))))"

section \<open>Training loop\<close>

text \<open>
  \<^verbatim>\<open>
  xb, yb = get_batch('train')
  logits, loss = model(xb, yb)
  optimizer.zero_grad(set_to_none=True)
  loss.backward()
  optimizer.step()
  \<close>
  The gradient and the optimizer are the library's: \<open>optimizer_step\<close> is the function
  from the parameters, the batch and the dropout decisions to the updated parameters.
\<close>

definition train_iter ::
  "config \<Rightarrow> randomness \<Rightarrow> (GPTLanguageModel \<Rightarrow> mode \<Rightarrow> int list list \<Rightarrow> int list list \<Rightarrow> GPTLanguageModel)
     \<Rightarrow> int list \<Rightarrow> world \<Rightarrow> world \<times> unit result" where
  "train_iter cfg orc optimizer_step corpus w =
     (case get_batch cfg (randint_src orc (rng w)) corpus ''train'' of
        Inl e \<Rightarrow> (w, Inl e)
      | Inr (xb, yb) \<Rightarrow>
          (case call_model orc (w\<lparr> rng := rng w + 1 \<rparr>) xb (Some yb) of
             (w1, Inl e) \<Rightarrow> (w1, Inl e)
           | (w1, Inr (lg, None)) \<Rightarrow> (w1, Inl AttributeError)
           | (w1, Inr (lg, Some loss)) \<Rightarrow>
               (w1\<lparr> wmodel :=
                    optimizer_step (wmodel w)
                      (if training w then Train (dropout_src orc (rng w + 1)) else Eval) xb yb \<rparr>,
                Inr ())))"


section \<open>Well-formed parameters\<close>

text \<open>The shapes the constructors give the parameters.\<close>

definition wf_Linear :: "nat \<Rightarrow> nat \<Rightarrow> Linear \<Rightarrow> bool" where
  "wf_Linear n_in n_out l =
     (in_features l = n_in \<and> out_features l = n_out \<and> has_shape2 n_out n_in (weight l)
      \<and> (case bias l of None \<Rightarrow> True | Some b \<Rightarrow> length b = n_out))"

definition wf_LayerNorm :: "nat \<Rightarrow> LayerNorm \<Rightarrow> bool" where
  "wf_LayerNorm n nrm =
     (normalized_shape nrm = n \<and> length (ln_weight nrm) = n \<and> length (ln_bias nrm) = n)"

definition wf_Head :: "config \<Rightarrow> nat \<Rightarrow> Head \<Rightarrow> bool" where
  "wf_Head cfg head_size h =
     (wf_Linear (n_embd cfg) head_size (key h) \<and> wf_Linear (n_embd cfg) head_size (query h)
      \<and> wf_Linear (n_embd cfg) head_size (value h) \<and> tril h = tril_ones (block_size cfg))"

definition wf_MultiHeadAttention :: "config \<Rightarrow> nat \<Rightarrow> nat \<Rightarrow> MultiHeadAttention \<Rightarrow> bool" where
  "wf_MultiHeadAttention cfg num_heads head_size a =
     (length (heads a) = num_heads \<and> list_all (wf_Head cfg head_size) (heads a)
      \<and> wf_Linear (head_size * num_heads) (n_embd cfg) (proj_lin a))"

definition wf_FeedFoward :: "nat \<Rightarrow> FeedFoward \<Rightarrow> bool" where
  "wf_FeedFoward n f = (wf_Linear n (4 * n) (net_0 f) \<and> wf_Linear (4 * n) n (net_2 f))"

definition wf_Block :: "config \<Rightarrow> Block \<Rightarrow> bool" where
  "wf_Block cfg b =
     (wf_MultiHeadAttention cfg (n_head cfg) (n_embd cfg div n_head cfg) (sa b)
      \<and> wf_FeedFoward (n_embd cfg) (ffwd b)
      \<and> wf_LayerNorm (n_embd cfg) (ln1 b) \<and> wf_LayerNorm (n_embd cfg) (ln2 b))"

definition wf_GPTLanguageModel :: "config \<Rightarrow> GPTLanguageModel \<Rightarrow> bool" where
  "wf_GPTLanguageModel cfg g =
     (has_shape2 (vocab_size cfg) (n_embd cfg) (token_embedding_table g)
      \<and> has_shape2 (block_size cfg) (n_embd cfg) (position_embedding_table g)
      \<and> length (blocks g) = n_layer cfg \<and> list_all (wf_Block cfg) (blocks g)
      \<and> wf_LayerNorm (n_embd cfg) (ln_f g)
      \<and> wf_Linear (n_embd cfg) (vocab_size cfg) (lm_head g))"

text \<open>Concrete inputs: a small configuration, a random source and a ten-token corpus.\<close>

definition tiny_config :: config where
  "tiny_config = \<lparr> batch_size = 2, block_size = 2, eval_iters = 1, n_embd = 4,
     n_head = 2, n_layer = 1, dropout = 0.2, vocab_size = 2 \<rparr>"

definition rnd0 :: "nat \<Rightarrow> nat" where
  "rnd0 k = 7 * k + 3"

definition corpus10 :: "int list" where
  "corpus10 = [0, 1, 0, 1, 1, 0, 1, 0, 0, 1]"




definition attention_widths :: "GPTLanguageModel \<Rightarrow> (nat \<times> nat) list" where
  "attention_widths g =
     map (\<lambda>b. (length (heads (sa b)), in_features (proj_lin (sa b)))) (blocks g)"

text \<open>
  More concrete inputs: the 65 symbols of the notebook's corpus, as the notebook prints
  them; initial weights; random numbers; the notebook's configuration with five heads
  instead of six; and the model, head and state built from the small configuration.
\<close>

definition vocab65 :: string where
  "vocab65 = CHR 0x0A # '' !$&'' @ CHR 0x27 # '',-.3:;?ABCDEFGHIJKLMNOPQRSTUVWXYZabcdefghijklmnopqrstuvwxyz''"

definition init0 :: "nat list \<Rightarrow> real" where
  "init0 p = real (sum_list p) / 100"

definition orc0 :: randomness where
  "orc0 = \<lparr> randint_src = (\<lambda>t k. rnd0 (t + k)), multinomial_src = (\<lambda>t b. t + b),
            dropout_src = (\<lambda>t p. even (t + sum_list p)) \<rparr>"

definition uneven_config :: config where
  "uneven_config = source_config \<lparr> n_head := 5 \<rparr>"

definition tiny_model :: GPTLanguageModel where
  "tiny_model = projr (GPTLanguageModel_init tiny_config init0)"


definition tiny_world :: world where
  "tiny_world = \<lparr> wmodel = tiny_model, training = True, rng = 0, calls = [] \<rparr>"


section \<open>Lemmas: results\<close>


lemma rmapM_length: "rmapM f xs = Inr ys \<Longrightarrow> length ys = length xs"
  by (induction xs arbitrary: ys) (auto split: sum.splits)

lemma rmapM_nth:
  "rmapM f xs = Inr ys \<Longrightarrow> i < length xs \<Longrightarrow> f (xs ! i) = Inr (ys ! i)"
proof (induction xs arbitrary: ys i)
  case Nil
  then show ?case by simp
next
  case (Cons x xs)
  then show ?case by (cases i) (auto split: sum.splits)
qed

lemma returns_Inr [simp]: "returns P (Inr y) = P y" and returns_Inl [simp]: "returns P (Inl e) = False"
  by (simp_all add: returns_def)

lemma returnsE: "returns P r \<Longrightarrow> (\<And>y. r = Inr y \<Longrightarrow> P y \<Longrightarrow> Q) \<Longrightarrow> Q"
  by (cases r) simp_all


lemma returns_rbind:
  "returns P r \<Longrightarrow> (\<And>y. P y \<Longrightarrow> returns Q (f y)) \<Longrightarrow> returns Q (rbind r f)"
  by (cases r) (simp_all add: rbind_def)

lemma returns_rmapM:
  assumes "\<And>x. x \<in> set xs \<Longrightarrow> returns P (f x)"
  shows "returns (\<lambda>ys. length ys = length xs \<and> list_all P ys) (rmapM f xs)"
  using assms
proof (induction xs)
  case Nil
  then show ?case by simp
next
  case (Cons x xs)
  from Cons.prems have "returns P (f x)" by simp
  then obtain y where y: "f x = Inr y" "P y" by (rule returnsE)
  from Cons have "returns (\<lambda>ys. length ys = length xs \<and> list_all P ys) (rmapM f xs)" by simp
  then obtain ys where ys: "rmapM f xs = Inr ys" "length ys = length xs \<and> list_all P ys" by (rule returnsE)
  show ?case using y ys by simp
qed

section \<open>Lemmas: tokenizer\<close>

lemma fold_upd_map_of:
  "fold (\<lambda>(k, v) m. m(k \<mapsto> v)) kvs m = m ++ map_of (rev kvs)"
  by (induction kvs arbitrary: m) (auto simp: map_add_def fun_eq_iff split: option.splits)

lemma fold_upd_distinct:
  assumes "distinct (map fst kvs)"
  shows "fold (\<lambda>(k, v) m. m(k \<mapsto> v)) kvs Map.empty = map_of kvs"
proof -
  have "map_of (rev kvs) = map_of kvs"
  proof (rule ext)
    fix k
    show "map_of (rev kvs) k = map_of kvs k"
    proof (cases "map_of kvs k")
      case None
      then have "k \<notin> fst ` set kvs" by (simp add: map_of_eq_None_iff)
      then have "map_of (rev kvs) k = None" by (simp add: map_of_eq_None_iff)
      with None show ?thesis by simp
    next
      case (Some v)
      then have "(k, v) \<in> set (rev kvs)" by (auto dest: map_of_SomeD)
      moreover have "distinct (map fst (rev kvs))" using assms by (simp add: rev_map[symmetric])
      ultimately show ?thesis using Some by simp
    qed
  qed
  then show ?thesis by (simp add: fold_upd_map_of)
qed

lemma distinct_chars: "distinct (chars text)"
  by (simp add: chars_def)

lemma set_chars: "set (chars text) = set text"
  by (simp add: chars_def)

lemma distinct_itos_keys:
  "distinct (map fst (map (\<lambda>(i, ch). (int i, ch)) (enumerate n xs)))"
proof -
  have "map fst (map (\<lambda>(i, ch). (int i, ch)) (enumerate n xs)) = map (int \<circ> fst) (enumerate n xs)"
    by (simp add: comp_def case_prod_unfold)
  also have "\<dots> = map int (map fst (enumerate n xs))"
    by (simp only: map_map)
  also have "\<dots> = map int [n..<n + length xs]"
    by simp
  finally show ?thesis
    by (simp add: distinct_map inj_on_def)
qed

lemma stoi_eq: "stoi text = map_of (map (\<lambda>(i, ch). (ch, int i)) (enumerate 0 (chars text)))"
proof -
  let ?kvs = "map (\<lambda>(i, ch). (ch, int i)) (enumerate 0 (chars text))"
  have f: "fold (\<lambda>(i, ch) m. m(ch \<mapsto> int i)) xs m = fold (\<lambda>(k, v) m. m(k \<mapsto> v)) (map (\<lambda>(i, ch). (ch, int i)) xs) m"
    for xs :: "(nat \<times> 'a) list" and m
    by (induction xs arbitrary: m) auto
  have "map fst ?kvs = chars text"
    by (simp add: comp_def case_prod_unfold flip: map_map[of snd])
  then have "distinct (map fst ?kvs)" by (simp add: distinct_chars)
  then show ?thesis unfolding stoi_def f by (rule fold_upd_distinct)
qed

lemma itos_eq: "itos text = map_of (map (\<lambda>(i, ch). (int i, ch)) (enumerate 0 (chars text)))"
proof -
  let ?kvs = "map (\<lambda>(i, ch). (int i, ch)) (enumerate 0 (chars text))"
  have f: "fold (\<lambda>(i, ch) m. m(int i \<mapsto> ch)) xs m = fold (\<lambda>(k, v) m. m(k \<mapsto> v)) (map (\<lambda>(i, ch). (int i, ch)) xs) m"
    for xs :: "(nat \<times> 'a) list" and m
    by (induction xs arbitrary: m) auto
  have "distinct (map fst ?kvs)" by (rule distinct_itos_keys)
  then show ?thesis unfolding itos_def f by (rule fold_upd_distinct)
qed

lemma stoi_nth:
  assumes "i < length (chars text)"
  shows "stoi text (chars text ! i) = Some (int i)"
proof -
  let ?kvs = "map (\<lambda>(i, ch). (ch, int i)) (enumerate 0 (chars text))"
  have "map fst ?kvs = chars text"
    by (simp add: comp_def case_prod_unfold flip: map_map[of snd])
  then have d: "distinct (map fst ?kvs)" by (simp add: distinct_chars)
  have "(chars text ! i, int i) \<in> set ?kvs"
    using assms by (force simp: in_set_enumerate_eq)
  then show ?thesis using d by (simp add: stoi_eq)
qed

lemma itos_nth:
  assumes "i < length (chars text)"
  shows "itos text (int i) = Some (chars text ! i)"
proof -
  let ?kvs = "map (\<lambda>(i, ch). (int i, ch)) (enumerate 0 (chars text))"
  have d: "distinct (map fst ?kvs)" by (rule distinct_itos_keys)
  have "(int i, chars text ! i) \<in> set ?kvs"
    using assms by (force simp: in_set_enumerate_eq)
  then show ?thesis using d by (simp add: itos_eq)
qed

lemma stoi_itos:
  assumes "c \<in> set text"
  shows "\<exists>i. stoi text c = Some i \<and> itos text i = Some c"
proof -
  from assms have "c \<in> set (chars text)" by (simp add: set_chars)
  then obtain k where k: "k < length (chars text)" "chars text ! k = c"
    by (auto simp: in_set_conv_nth)
  then show ?thesis using stoi_nth[OF k(1)] itos_nth[OF k(1)] by auto
qed

lemma decode_encode:
  assumes "set s \<subseteq> set text"
  shows "rbind (encode text s) (decode text) = Inr s"
  using assms
proof (induction s)
  case Nil
  then show ?case by (simp add: rbind_def encode_def decode_def)
next
  case (Cons c s)
  then have ih: "rbind (encode text s) (decode text) = Inr s" by simp
  from Cons.prems obtain i where i: "stoi text c = Some i" "itos text i = Some c"
    using stoi_itos[of c "text"] by auto
  from ih obtain ids where ids: "encode text s = Inr ids" "decode text ids = Inr s"
    by (auto simp: rbind_def split: sum.splits)
  have e: "encode text (c # s) = Inr (i # ids)"
    using i ids by (simp add: encode_def)
  have "decode text (i # ids) = Inr (c # s)"
    using i ids(2) by (auto simp: decode_def map_sum_def split: sum.splits)
  with e show ?case by (simp add: rbind_def)
qed

section \<open>Lemmas: split and batch sampler\<close>

lemma split_point_div: "split_point len = 9 * len div 10"
proof -
  have "\<lfloor>0.9 * real len\<rfloor> = \<lfloor>real_of_int (int (9 * len)) / real_of_int 10\<rfloor>"
    by simp
  also have "\<dots> = int (9 * len) div 10"
    by (simp only: floor_divide_of_int_eq)
  finally show ?thesis
    unfolding split_point_def by (simp add: nat_div_distrib)
qed

lemma split_point_le: "split_point len \<le> len"
  by (simp add: split_point_div)

lemma length_train_data: "length (train_data d) = split_point (length d)"
  by (simp add: train_data_def split_point_le)

lemma length_val_data: "length (val_data d) = length d - split_point (length d)"
  by (simp add: val_data_def)




section \<open>Lemmas: layers\<close>





lemma Dropout_forward_length [simp]: "length (Dropout_forward p m xs) = length xs"
  by (cases m) simp_all


lemma Dropout2_length [simp]: "length (Dropout2 p m x) = length x"
  by (simp add: Dropout2_def)


lemma Dropout3_length [simp]: "length (Dropout3 p m x) = length x"
  by (simp add: Dropout3_def)







lemma matmul_length [simp]: "length (matmul a b) = length a"
  by (simp add: matmul_def split: list.splits)


section \<open>Lemmas: attention head\<close>



lemma softmax_length [simp]: "length (softmax row) = length row"
  by (simp add: softmax_def Let_def)







section \<open>Lemmas: shapes through the network\<close>















section \<open>Lemmas: constructors\<close>

lemma wf_Linear_init: "wf_Linear n_in n_out (Linear_init init n_in n_out wb)"
  by (simp add: wf_Linear_def Linear_init_def has_shape2_def list_all_iff)

lemma wf_LayerNorm_init: "wf_LayerNorm n (LayerNorm_init n)"
  by (simp add: wf_LayerNorm_def LayerNorm_init_def)

lemma Embedding_init_shape: "has_shape2 num width (Embedding_init init num width)"
  by (simp add: Embedding_init_def has_shape2_def list_all_iff)

lemma Dropout_init_ok: "0 \<le> p \<Longrightarrow> p \<le> 1 \<Longrightarrow> Dropout_init p = Inr p"
  by (simp add: Dropout_init_def)

lemma Head_init_returns:
  assumes "0 \<le> dropout cfg" and "dropout cfg \<le> 1"
  shows "returns (wf_Head cfg hs) (Head_init cfg init hs)"
  using assms
  by (simp add: Head_init_def Dropout_init_ok rbind_def wf_Head_def wf_Linear_init)

lemma MultiHeadAttention_init_returns:
  assumes d: "0 \<le> dropout cfg" "dropout cfg \<le> 1"
  shows "returns (wf_MultiHeadAttention cfg n hs) (MultiHeadAttention_init cfg init n hs)"
proof -
  have "returns (\<lambda>ys. length ys = length [0..<n] \<and> list_all (wf_Head cfg hs) ys)
      (rmapM (\<lambda>k. Head_init cfg (isub (Suc k) init) hs) [0..<n])"
    by (rule returns_rmapM) (rule Head_init_returns[OF d])
  then obtain hds where h: "rmapM (\<lambda>k. Head_init cfg (isub (Suc k) init) hs) [0..<n] = Inr hds"
    "length hds = n" "list_all (wf_Head cfg hs) hds"
    by (auto elim!: returnsE)
  show ?thesis
    using h d
    by (simp add: MultiHeadAttention_init_def rbind_def Dropout_init_ok
        wf_MultiHeadAttention_def wf_Linear_init)
qed

lemma FeedFoward_init_returns:
  assumes "0 \<le> dropout cfg" and "dropout cfg \<le> 1"
  shows "returns (wf_FeedFoward n) (FeedFoward_init cfg init n)"
  using assms
  by (simp add: FeedFoward_init_def Dropout_init_ok rbind_def wf_FeedFoward_def wf_Linear_init)

lemma Block_init_returns:
  assumes d: "0 \<le> dropout cfg" "dropout cfg \<le> 1" and n: "0 < n_head cfg"
  shows "returns (wf_Block cfg) (Block_init cfg init (n_embd cfg) (n_head cfg))"
proof -
  from MultiHeadAttention_init_returns[OF d] obtain a where
    a: "MultiHeadAttention_init cfg (isub 0 init) (n_head cfg) (n_embd cfg div n_head cfg) = Inr a"
       "wf_MultiHeadAttention cfg (n_head cfg) (n_embd cfg div n_head cfg) a"
    by (rule returnsE)
  from FeedFoward_init_returns[OF d] obtain f where
    f: "FeedFoward_init cfg (isub 1 init) (n_embd cfg) = Inr f" "wf_FeedFoward (n_embd cfg) f"
    by (rule returnsE)
  show ?thesis
    using n a f by (simp add: Block_init_def rbind_def wf_Block_def wf_LayerNorm_init)
qed

lemma Block_init_zero_heads: "Block_init cfg init n 0 = Inl ZeroDivisionError"
  by (simp add: Block_init_def)

lemma GPTLanguageModel_init_returns:
  assumes d: "0 \<le> dropout cfg" "dropout cfg \<le> 1" and n: "0 < n_head cfg"
  shows "returns (wf_GPTLanguageModel cfg) (GPTLanguageModel_init cfg init)"
proof -
  have "returns (\<lambda>ys. length ys = length [0..<n_layer cfg] \<and> list_all (wf_Block cfg) ys)
      (rmapM (\<lambda>l. Block_init cfg (isub (l + 3) init) (n_embd cfg) (n_head cfg)) [0..<n_layer cfg])"
    by (rule returns_rmapM) (rule Block_init_returns[OF d n])
  then obtain bs where b: "rmapM (\<lambda>l. Block_init cfg (isub (l + 3) init) (n_embd cfg) (n_head cfg)) [0..<n_layer cfg] = Inr bs"
    "length bs = n_layer cfg" "list_all (wf_Block cfg) bs"
    by (auto elim!: returnsE)
  show ?thesis
    using b
    by (simp add: GPTLanguageModel_init_def rbind_def wf_GPTLanguageModel_def
        Embedding_init_shape wf_LayerNorm_init wf_Linear_init)
qed

section \<open>Lemmas: forward pass and loss\<close>













section \<open>Lemmas: generation\<close>















section \<open>Lemmas: what the procedures leave unchanged\<close>

lemma call_model_frame:
  "wmodel (fst (call_model orc w idx tg)) = wmodel w"
  "training (fst (call_model orc w idx tg)) = training w"
  by (simp_all add: call_model_def)

lemma generate_step_frame:
  "wmodel (fst (generate_step cfg orc w idx)) = wmodel w \<and> training (fst (generate_step cfg orc w idx)) = training w"
  by (simp add: generate_step_def Let_def call_model_def split: sum.splits prod.splits)

lemma generate_frame:
  "wmodel (fst (generate cfg orc w idx n)) = wmodel w \<and> training (fst (generate cfg orc w idx n)) = training w"
proof (induction n arbitrary: w idx)
  case 0
  show ?case by simp
next
  case (Suc n)
  obtain w1 r where s: "generate_step cfg orc w idx = (w1, r)" by (cases "generate_step cfg orc w idx")
  from generate_step_frame[of cfg orc w idx] s
  have f: "wmodel w1 = wmodel w" "training w1 = training w" by simp_all
  show ?case
  proof (cases r)
    case (Inl e)
    with s f show ?thesis by simp
  next
    case (Inr idx1)
    with s f Suc.IH[of w1 idx1] show ?thesis by simp
  qed
qed

lemma eval_loop_frame:
  "wmodel (fst (eval_loop cfg orc corpus split ks w losses)) = wmodel w
   \<and> training (fst (eval_loop cfg orc corpus split ks w losses)) = training w"
proof (induction ks arbitrary: w losses)
  case Nil
  show ?case by simp
next
  case (Cons k ks)
  show ?case
  proof (cases "get_batch cfg (randint_src orc (rng w)) corpus split")
    case (Inl e)
    then show ?thesis by simp
  next
    case (Inr xy)
    obtain X Y where xy: "xy = (X, Y)" by (cases xy)
    let ?w = "w\<lparr>rng := rng w + 1\<rparr>"
    obtain w1 r where c: "call_model orc ?w X (Some Y) = (w1, r)"
      by (cases "call_model orc ?w X (Some Y)")
    from call_model_frame[of orc ?w X "Some Y"] c
    have f: "wmodel w1 = wmodel w" "training w1 = training w" by simp_all
    show ?thesis
    proof (cases r)
      case (Inl e)
      with Inr xy c f show ?thesis by simp
    next
      case r: (Inr ll)
      obtain lg loss where ll: "ll = (lg, loss)" by (cases ll)
      show ?thesis
      proof (cases loss)
        case None
        with Inr xy c f r ll show ?thesis by simp
      next
        case (Some l)
        with Inr xy c f r ll Cons.IH[of w1 "losses[k := l]"] show ?thesis by simp
      qed
    qed
  qed
qed

lemma estimate_loss_frame:
  "wmodel (fst (estimate_loss cfg orc corpus w)) = wmodel w"
proof -
  let ?l0 = "replicate (eval_iters cfg) (Val 0)"
  let ?w0 = "w\<lparr>training := False\<rparr>"
  obtain w1 r1 where e1: "eval_loop cfg orc corpus ''train'' [0..<eval_iters cfg] ?w0 ?l0 = (w1, r1)"
    by (cases "eval_loop cfg orc corpus ''train'' [0..<eval_iters cfg] ?w0 ?l0")
  from eval_loop_frame[of cfg orc corpus "''train''" "[0..<eval_iters cfg]" ?w0 ?l0] e1
  have f1: "wmodel w1 = wmodel w" by simp
  obtain w2 r2 where e2: "eval_loop cfg orc corpus ''val'' [0..<eval_iters cfg] w1 ?l0 = (w2, r2)"
    by (cases "eval_loop cfg orc corpus ''val'' [0..<eval_iters cfg] w1 ?l0")
  from eval_loop_frame[of cfg orc corpus "''val''" "[0..<eval_iters cfg]" w1 ?l0] e2
  have f2: "wmodel w2 = wmodel w1" by simp
  show ?thesis
    unfolding estimate_loss_def e1 using f1 f2 e2 by (cases r1; cases r2) simp_all
qed

lemma estimate_loss_mode:
  "training (fst (estimate_loss cfg orc corpus w)) = (\<not> isl (snd (estimate_loss cfg orc corpus w)))"
proof -
  let ?l0 = "replicate (eval_iters cfg) (Val 0)"
  let ?w0 = "w\<lparr>training := False\<rparr>"
  obtain w1 r1 where e1: "eval_loop cfg orc corpus ''train'' [0..<eval_iters cfg] ?w0 ?l0 = (w1, r1)"
    by (cases "eval_loop cfg orc corpus ''train'' [0..<eval_iters cfg] ?w0 ?l0")
  from eval_loop_frame[of cfg orc corpus "''train''" "[0..<eval_iters cfg]" ?w0 ?l0] e1
  have f1: "training w1 = False" by simp
  obtain w2 r2 where e2: "eval_loop cfg orc corpus ''val'' [0..<eval_iters cfg] w1 ?l0 = (w2, r2)"
    by (cases "eval_loop cfg orc corpus ''val'' [0..<eval_iters cfg] w1 ?l0")
  from eval_loop_frame[of cfg orc corpus "''val''" "[0..<eval_iters cfg]" w1 ?l0] e2
  have f2: "training w2 = training w1" by simp
  show ?thesis
    unfolding estimate_loss_def e1 using f1 f2 e2 by (cases r1; cases r2) simp_all
qed

lemma train_iter_updates:
  assumes "train_iter cfg orc opt corpus w = (w1, Inr u)"
  shows "\<exists>xb yb m. wmodel w1 = opt (wmodel w) m xb yb"
  using assms
  by (auto simp: train_iter_def call_model_def split: sum.splits prod.splits option.splits) blast+


section \<open>Lemmas: the concrete inputs\<close>


lemma uneven_config_simps:
  "n_embd uneven_config = 384" "n_head uneven_config = 5" "n_layer uneven_config = 6"
  "dropout uneven_config = 0.2"
  by (simp_all add: uneven_config_def source_config_def)




lemma attention_widths_wf:
  assumes "wf_GPTLanguageModel cfg g"
  shows "attention_widths g =
     replicate (n_layer cfg) (n_head cfg, n_embd cfg div n_head cfg * n_head cfg)"
proof (rule nth_equalityI)
  show "length (attention_widths g) = length (replicate (n_layer cfg) (n_head cfg, n_embd cfg div n_head cfg * n_head cfg))"
    using assms by (simp add: attention_widths_def wf_GPTLanguageModel_def)
next
  fix i assume "i < length (attention_widths g)"
  then have i: "i < length (blocks g)" by (simp add: attention_widths_def)
  with assms have "wf_Block cfg (blocks g ! i)" and l: "length (blocks g) = n_layer cfg"
    by (simp_all add: wf_GPTLanguageModel_def list_all_length)
  then have "wf_MultiHeadAttention cfg (n_head cfg) (n_embd cfg div n_head cfg) (sa (blocks g ! i))"
    by (simp add: wf_Block_def)
  then show "attention_widths g ! i = replicate (n_layer cfg) (n_head cfg, n_embd cfg div n_head cfg * n_head cfg) ! i"
    using i l by (simp add: attention_widths_def wf_MultiHeadAttention_def wf_Linear_def)
qed





lemma vocab65_sorted: "sorted vocab65 \<and> distinct vocab65"
  unfolding vocab65_def by (simp add: less_eq_char_def less_char_def)

lemma chars_vocab65: "chars vocab65 = vocab65"
  unfolding chars_def using vocab65_sorted
  by (simp add: sorted_list_of_set.idem_if_sorted_distinct)

lemma stoi_vocab65:
  "stoi vocab65 CHR ''h'' = Some 46" "stoi vocab65 CHR ''i'' = Some 47"
  "stoi vocab65 CHR '' '' = Some 1" "stoi vocab65 CHR ''t'' = Some 58"
  "stoi vocab65 CHR ''e'' = Some 43" "stoi vocab65 CHR ''r'' = Some 56"
proof -
  have n: "vocab65 ! 46 = CHR ''h''" "vocab65 ! 47 = CHR ''i''" "vocab65 ! 1 = CHR '' ''"
    "vocab65 ! 58 = CHR ''t''" "vocab65 ! 43 = CHR ''e''" "vocab65 ! 56 = CHR ''r''"
    by (simp_all add: vocab65_def)
  have "length vocab65 = 65" by (simp add: vocab65_def)
  then have l: "length (chars vocab65) = 65" by (simp only: chars_vocab65)
  show "stoi vocab65 CHR ''h'' = Some 46" using stoi_nth[of 46 vocab65] l n by (simp add: chars_vocab65)
  show "stoi vocab65 CHR ''i'' = Some 47" using stoi_nth[of 47 vocab65] l n by (simp add: chars_vocab65)
  show "stoi vocab65 CHR '' '' = Some 1" using stoi_nth[of 1 vocab65] l n by (simp add: chars_vocab65)
  show "stoi vocab65 CHR ''t'' = Some 58" using stoi_nth[of 58 vocab65] l n by (simp add: chars_vocab65)
  show "stoi vocab65 CHR ''e'' = Some 43" using stoi_nth[of 43 vocab65] l n by (simp add: chars_vocab65)
  show "stoi vocab65 CHR ''r'' = Some 56" using stoi_nth[of 56 vocab65] l n by (simp add: chars_vocab65)
qed

lemma encode_hii_there: "encode vocab65 ''hii there'' = Inr [46, 47, 47, 1, 58, 46, 43, 56, 43]"
  by (simp add: encode_def stoi_vocab65)

section \<open>Claims\<close>



text \<open>
  C2. Construction has no divisibility check. For every configuration with at least one
  head and a dropout rate in \<open>[0, 1]\<close>, divisible or not, the constructor returns a model
  whose parameters have the constructors' shapes: every block has \<open>n_head\<close> heads of
  width \<open>n_embd div n_head\<close>, and its projection maps their concatenated width
  \<open>(n_embd div n_head) * n_head\<close> back to \<open>n_embd\<close>. With 384 features and 5 heads the
  constructor returns a model whose heads have 76 features and whose concatenation has
  380.
\<close>

theorem construction_without_divisibility_check:
  assumes "0 < n_head cfg" and "0 \<le> dropout cfg" and "dropout cfg \<le> 1"
  shows "\<exists>g. GPTLanguageModel_init cfg init = Inr g \<and> wf_GPTLanguageModel cfg g
      \<and> attention_widths g =
          replicate (n_layer cfg) (n_head cfg, n_embd cfg div n_head cfg * n_head cfg)"
proof -
  from GPTLanguageModel_init_returns[OF assms(2,3,1), of init] obtain g where
    g: "GPTLanguageModel_init cfg init = Inr g" "wf_GPTLanguageModel cfg g" by (rule returnsE)
  with attention_widths_wf[OF g(2)] show ?thesis by blast
qed

theorem construction_without_divisibility_check_witness:
  "0 < n_head uneven_config \<and> 0 \<le> dropout uneven_config \<and> dropout uneven_config \<le> 1
   \<and> (\<exists>g. GPTLanguageModel_init uneven_config init0 = Inr g \<and> wf_GPTLanguageModel uneven_config g)"
proof -
  have a: "0 < n_head uneven_config" and b: "0 \<le> dropout uneven_config"
    and c: "dropout uneven_config \<le> 1"
    by (simp_all add: uneven_config_simps)
  from construction_without_divisibility_check[OF a b c, of init0] a b c show ?thesis by blast
qed

theorem uneven_heads_construct_counterexample:
  "\<not> n_head uneven_config dvd n_embd uneven_config
   \<and> map_sum id attention_widths (GPTLanguageModel_init uneven_config init0)
       = Inr [(5, 380), (5, 380), (5, 380), (5, 380), (5, 380), (5, 380)]"
proof -
  have "returns (wf_GPTLanguageModel uneven_config) (GPTLanguageModel_init uneven_config init0)"
    by (rule GPTLanguageModel_init_returns) (simp_all add: uneven_config_simps)
  then obtain g where g: "GPTLanguageModel_init uneven_config init0 = Inr g"
    "wf_GPTLanguageModel uneven_config g" by (rule returnsE)
  have "attention_widths g = replicate 6 (5, 380)"
    using attention_widths_wf[OF g(2)] by (simp add: uneven_config_simps)
  also have "\<dots> = [(5, 380), (5, 380), (5, 380), (5, 380), (5, 380), (5, 380)]"
    by (simp add: numeral_eq_Suc)
  finally show ?thesis using g(1) by (simp add: uneven_config_simps)
qed




text \<open>
  C4. Tokenizer round trip: for every string composed only of symbols that occur in the
  training corpus, encoding succeeds and decoding the indices gives the string back.
\<close>

theorem tokenizer_round_trip:
  assumes "set s \<subseteq> set text"
  shows "\<exists>ids. encode text s = Inr ids \<and> decode text ids = Inr s"
  using decode_encode[OF assms] by (auto simp: rbind_def split: sum.splits)

theorem tokenizer_round_trip_witness:
  "set ''hii there'' \<subseteq> set vocab65
   \<and> encode vocab65 ''hii there'' = Inr [46, 47, 47, 1, 58, 46, 43, 56, 43]
   \<and> decode vocab65 [46, 47, 47, 1, 58, 46, 43, 56, 43] = Inr ''hii there''"
proof -
  have h: "set ''hii there'' \<subseteq> set vocab65" by (simp add: vocab65_def)
  from tokenizer_round_trip[OF h] obtain ids where
    "encode vocab65 ''hii there'' = Inr ids" "decode vocab65 ids = Inr ''hii there''" by blast
  with encode_hii_there h show ?thesis by simp
qed







text \<open>
  C7. The split is a function of the encoded corpus alone: the train split has length
  floor(0.9 * corpus length), the validation split has the remaining length, the train
  split is the corpus at the indices below the split point and the validation split is
  the corpus at the indices from the split point on, and the two splits concatenated
  are the corpus.
\<close>

theorem split_partition:
  "int (length (train_data d)) = \<lfloor>0.9 * real (length d)\<rfloor>
   \<and> length (val_data d) = length d - length (train_data d)
   \<and> train_data d @ val_data d = d
   \<and> (\<forall>i. i < length (train_data d) \<longrightarrow> train_data d ! i = d ! i)
   \<and> (\<forall>i. i < length (val_data d) \<longrightarrow> val_data d ! i = d ! (length (train_data d) + i))"
proof -
  have n: "split_point (length d) \<le> length d" by (rule split_point_le)
  have 1: "int (length (train_data d)) = \<lfloor>0.9 * real (length d)\<rfloor>"
    by (simp add: length_train_data split_point_def)
  have 2: "length (val_data d) = length d - length (train_data d)"
    by (simp add: length_train_data length_val_data)
  have 3: "train_data d @ val_data d = d"
    by (simp add: train_data_def val_data_def)
  have 4: "\<forall>i. i < length (train_data d) \<longrightarrow> train_data d ! i = d ! i"
    by (simp add: train_data_def)
  have 5: "\<forall>i. i < length (val_data d) \<longrightarrow> val_data d ! i = d ! (length (train_data d) + i)"
    using n by (simp add: length_train_data val_data_def)
  from 1 2 3 4 5 show ?thesis by blast
qed

theorem split_partition_witness:
  "length (train_data [10, 11, 12, 13, 14, 15, 16, 17, 18, 19 :: int]) = 9
   \<and> train_data [10, 11, 12, 13, 14, 15, 16, 17, 18, 19 :: int] ! 3 = 13
   \<and> val_data [10, 11, 12, 13, 14, 15, 16, 17, 18, 19 :: int] ! 0 = 19"
proof -
  let ?d = "[10, 11, 12, 13, 14, 15, 16, 17, 18, 19 :: int]"
  have l: "length (train_data ?d) = 9"
    by (simp add: length_train_data split_point_div)
  have v: "length (val_data ?d) = 1"
    by (simp add: length_val_data split_point_div)
  have a: "(3::nat) < length (train_data ?d)" and b: "(0::nat) < length (val_data ?d)"
    using l v by simp_all
  from split_partition[of ?d] a b
  have "train_data ?d ! 3 = ?d ! 3" and "val_data ?d ! 0 = ?d ! (length (train_data ?d) + 0)"
    by blast+
  then show ?thesis using l by simp
qed



text \<open>
  C9. \<open>estimate_loss\<close> and \<open>generate\<close> leave the model's parameters as they were,
  whatever they return or raise. \<open>generate\<close> also leaves the mode flag as it was;
  \<open>estimate_loss\<close> leaves the model in training mode when it returns and in evaluation
  mode when it raises.
\<close>

theorem evaluation_keeps_parameters:
  "wmodel (fst (estimate_loss cfg orc corpus w)) = wmodel w
   \<and> wmodel (fst (generate cfg orc w idx n)) = wmodel w
   \<and> training (fst (generate cfg orc w idx n)) = training w
   \<and> training (fst (estimate_loss cfg orc corpus w)) = (\<not> isl (snd (estimate_loss cfg orc corpus w)))"
  using estimate_loss_frame[of cfg orc corpus w] generate_frame[of cfg orc w idx n]
    estimate_loss_mode[of cfg orc corpus w]
  by simp

theorem evaluation_keeps_parameters_witness:
  "wmodel (fst (estimate_loss tiny_config orc0 corpus10 tiny_world)) = tiny_model
   \<and> wmodel (fst (generate tiny_config orc0 tiny_world [[0, 1]] 3)) = tiny_model"
  using evaluation_keeps_parameters[of tiny_config orc0 corpus10 tiny_world "[[0, 1]]" 3]
  by (simp add: tiny_world_def)



end
